theory Spec2Isabelle
  imports Complex_Main
begin

section \<open>The translation driver of nmtpytorch (\<^verbatim>\<open>nmtpytorch/translator.py\<close>)\<close>

text \<open>
  The class \<^verbatim>\<open>Translator\<close> loads an ensemble of models, checks that they can be used
  together, decides which splits to translate, decodes each split with beam search,
  post-processes the hypotheses and writes them to a file whose name is derived from the
  run configuration. The embedding below follows the source method by method. Python
  objects that are mutated in place (the translator itself, the primary model instance,
  the file system, the clock) are passed and returned explicitly; every exception is a
  value of type \<open>error\<close>.
\<close>

subsection \<open>Data model\<close>

text \<open>\<^verbatim>\<open>pathlib.Path(path)\<close>: the path object built from a string.\<close>

datatype path = Path string

datatype error =
    AssertionError string
  | IndexError
  | KeyError string
  | ValueError
  | TypeError
  | AttributeError
  | ZeroDivisionError
  | OverflowError
  | OSError
  | UnicodeEncodeError
  | External string

text \<open>
  The attribute \<^verbatim>\<open>self.splits\<close> is dynamically typed: the caller passes \<^verbatim>\<open>None\<close> or
  a string, and the constructor replaces it by a list of split names.
\<close>

datatype splits_val = NoneS | Str string | Lst "string list"

text \<open>
  The keyword arguments of the constructor, stored by \<^verbatim>\<open>self.__dict__.update(kwargs)\<close>.
  The attribute \<^verbatim>\<open>output\<close> is called \<open>output_p\<close> here.
\<close>

record run_config =
  models :: "string list"
  beam_size :: int
  batch_size :: int
  max_len :: int
  avoid_double :: bool
  avoid_unk :: bool
  disable_filters :: bool
  output_p :: string
  splits :: splits_val
  source :: "string option"

text \<open>
  A model instance, reduced to the attributes the translator reads or writes:
  \<^verbatim>\<open>opts.train['eval_filters']\<close>, \<^verbatim>\<open>opts.data\<close>, \<^verbatim>\<open>sl\<close>, \<^verbatim>\<open>n_trg_vocab\<close>, \<^verbatim>\<open>trg_vocab\<close>
  and \<^verbatim>\<open>datasets\<close>. The vocabulary and the data sets are opaque (\<open>'v\<close>, \<open>'d\<close>).
\<close>

record ('v, 'd) model_instance =
  eval_filters :: string
  data :: "string \<rightharpoonup> (string \<rightharpoonup> path)"
  sl :: string
  n_trg_vocab :: nat
  trg_vocab :: 'v
  datasets :: "string \<rightharpoonup> 'd"

text \<open>The translator object: the stored keyword arguments and what the constructor adds.\<close>

record ('v, 'd) translator = run_config +
  n_models :: nat
  instances :: "('v, 'd) model_instance list"
  filter_f :: "string list \<Rightarrow> string list"

text \<open>
  A file opened in text mode and written: the encoding it was opened with and the text
  written to it. The world holds the files by path, the number of clock readings taken
  so far, and the sentences-per-second values that line 118 has handed to the logger, in
  order (the other log lines are not recorded).
\<close>

record text_file =
  encoding :: string
  content :: string

record world =
  files :: "string \<rightharpoonup> text_file"
  ticks :: nat
  reported :: "int list"

text \<open>
  The collaborators that are not part of \<^verbatim>\<open>translator.py\<close>, as parameters:
  \<^item> \<open>load_pt_file\<close>: lines 38 to 50, from the checkpoint file to the instance in
    evaluation mode (\<^verbatim>\<open>load_pt_file\<close>, \<^verbatim>\<open>Options.from_dict\<close>, the model class, \<^verbatim>\<open>setup\<close>,
    \<^verbatim>\<open>load_state_dict\<close>, \<^verbatim>\<open>cuda\<close>, \<^verbatim>\<open>train(False)\<close>);
  \<^item> \<open>load_data\<close>: \<^verbatim>\<open>instance.load_data(split)\<close>, which updates the instance;
  \<^item> \<open>get_iterator\<close>: \<^verbatim>\<open>dataset.get_iterator(batch_size, only_source=...)\<close>;
  \<^item> \<open>beam_search\<close>: \<^verbatim>\<open>search.beam_search\<close>;
  \<^item> \<open>chain_of\<close>: the ordered text transforms that an \<^verbatim>\<open>eval_filters\<close> value names;
  \<^item> \<open>time_time\<close>: the value of the \<open>k\<close>-th call of \<^verbatim>\<open>time.time()\<close>, a float;
  \<^item> \<open>can_open\<close>: whether \<^verbatim>\<open>open(path, 'w')\<close> succeeds;
  \<^item> \<open>preferred_encoding\<close>: the encoding of a text file opened without
    \<^verbatim>\<open>encoding=\<close> (\<^verbatim>\<open>locale.getpreferredencoding(False)\<close>);
  \<^item> \<open>can_encode\<close>: whether a text can be encoded in that encoding.
\<close>

record ('v, 'd, 'l) env =
  load_pt_file :: "string \<Rightarrow> error + ('v, 'd) model_instance"
  load_data :: "('v, 'd) model_instance \<Rightarrow> string \<Rightarrow> error + ('v, 'd) model_instance"
  get_iterator :: "'d \<Rightarrow> int \<Rightarrow> bool \<Rightarrow> error + 'l"
  beam_search :: "('v, 'd) model_instance \<Rightarrow> 'l \<Rightarrow> 'v \<Rightarrow> int \<Rightarrow> int \<Rightarrow> bool \<Rightarrow> bool
                    \<Rightarrow> error + string list"
  chain_of :: "string \<Rightarrow> (string \<Rightarrow> string) list"
  time_time :: "nat \<Rightarrow> real"
  can_open :: "string \<Rightarrow> bool"
  preferred_encoding :: string
  can_encode :: "string \<Rightarrow> bool"

subsection \<open>Python floats\<close>

text \<open>
  A Python float is an IEEE 754 double. A finite float is written here as the real
  number it denotes, and an operation returns the exact result rounded to the nearest
  double, ties to the even significand. A double has a significand of 53 bits:
  \<open>binade\<close> finds the exponent \<open>e\<close> with \<open>2 powi e \<le> a < 2 powi (e + 1)\<close> by stepping
  from a candidate (the fuel bounds the search; the exponents of the doubles lie between
  \<open>-1074\<close> and \<open>1023\<close>), and below \<open>2 powi (-1022)\<close> the spacing of the doubles stays
  \<open>2 powi (-1074)\<close>. A rounded result of magnitude \<open>2 powi 1024\<close> or more is the float
  infinity.
\<close>

definition round_half_even :: "real \<Rightarrow> int" where
  "round_half_even m =
     (let f = \<lfloor>m\<rfloor>; r = m - of_int f
      in if r < 1 / 2 then f else if 1 / 2 < r then f + 1 else if even f then f else f + 1)"

fun binade :: "nat \<Rightarrow> int \<Rightarrow> real \<Rightarrow> int" where
  "binade 0 e a = e"
| "binade (Suc fuel) e a =
     (if a < 2 powi e then binade fuel (e - 1) a
      else if 2 powi (e + 1) \<le> a then binade fuel (e + 1) a
      else e)"

definition round_double :: "real \<Rightarrow> real" where
  "round_double x =
     (if x = 0 then 0
      else let a = \<bar>x\<bar>; e = max (binade 2200 0 a) (- 1022); q = 2 powi (e - 52)
           in sgn x * of_int (round_half_even (a / q)) * q)"

text \<open>\<^verbatim>\<open>x - y\<close> and \<^verbatim>\<open>x / y\<close> (for \<open>y \<noteq> 0\<close>) on floats, and \<^verbatim>\<open>float(n)\<close> for an integer.\<close>

definition float_sub :: "real \<Rightarrow> real \<Rightarrow> real" where
  "float_sub x y = round_double (x - y)"

definition float_div :: "real \<Rightarrow> real \<Rightarrow> real" where
  "float_div x y = round_double (x / y)"

definition float_of_int :: "int \<Rightarrow> real" where
  "float_of_int n = round_double (of_int n)"

subsection \<open>Python strings\<close>

text \<open>\<^verbatim>\<open>str(n)\<close> for an integer: the decimal digits, with a minus sign when negative.\<close>

definition digit_char :: "nat \<Rightarrow> char" where
  "digit_char d = ''0123456789'' ! d"

function digits :: "nat \<Rightarrow> string" where
  "digits n = (if n < 10 then [digit_char n] else digits (n div 10) @ [digit_char (n mod 10)])"
  by pat_completeness auto
termination
  by (relation "measure (\<lambda>n. n)") auto

definition str_int :: "int \<Rightarrow> string" where
  "str_int i = (if i < 0 then CHR ''-'' # digits (nat (- i)) else digits (nat i))"

text \<open>
  \<^verbatim>\<open>s.split(sep)\<close> for a one-character separator: the pieces between the separators,
  empty pieces included; \<open>acc\<close> is the current piece, reversed.
\<close>

fun py_split_acc :: "char \<Rightarrow> string \<Rightarrow> string \<Rightarrow> string list" where
  "py_split_acc c acc [] = [rev acc]"
| "py_split_acc c acc (x # xs) =
     (if x = c then rev acc # py_split_acc c [] xs else py_split_acc c (x # acc) xs)"

definition py_split :: "char \<Rightarrow> string \<Rightarrow> string list" where
  "py_split c s = py_split_acc c [] s"

text \<open>\<^verbatim>\<open>s.split(sep, 1)\<close>: cut at the first separator, if there is one.\<close>

definition py_split1 :: "char \<Rightarrow> string \<Rightarrow> string list" where
  "py_split1 c s =
     (if c \<in> set s then [takeWhile (\<lambda>x. x \<noteq> c) s, tl (dropWhile (\<lambda>x. x \<noteq> c) s)] else [s])"

text \<open>\<^verbatim>\<open>sep.join(pieces)\<close>, used to say what \<open>py_split\<close> returns.\<close>

fun py_join :: "char \<Rightarrow> string list \<Rightarrow> string" where
  "py_join c [] = []"
| "py_join c [p] = p"
| "py_join c (p # q # ps) = p @ c # py_join c (q # ps)"

subsection \<open>The constructor\<close>

text \<open>Lines 34 to 51: one instance per model file, in order; the first failure is raised.\<close>

fun load_instances ::
  "('v, 'd, 'l) env \<Rightarrow> string list \<Rightarrow> error + ('v, 'd) model_instance list" where
  "load_instances env [] = Inr []"
| "load_instances env (model_file # rest) =
     (case load_pt_file env model_file of
        Inl e \<Rightarrow> Inl e
      | Inr inst \<Rightarrow>
          (case load_instances env rest of
             Inl e \<Rightarrow> Inl e
           | Inr insts \<Rightarrow> Inr (inst # insts)))"

text \<open>
  Lines 82 to 88. A Python set built from a list has as many members as the list has
  distinct elements.
\<close>

definition sanity_check :: "('v, 'd) model_instance list \<Rightarrow> error + unit" where
  "sanity_check insts =
     (if \<not> length (remdups (map eval_filters insts)) < 2
      then Inl (AssertionError ''eval_filters differ between instances.'')
      else if length (remdups (map n_trg_vocab insts)) \<noteq> 1
      then Inl (AssertionError ''target vocabularies differ.'')
      else Inr ())"

text \<open>
  Modelled from the spec: \<^verbatim>\<open>utils/filterchain.py\<close> (the class \<^verbatim>\<open>FilterChain\<close>) is not
  among the sources. The spec describes it as "an ordered pipeline of named text
  transforms, each total and order-sensitive", with the interface
  \<^verbatim>\<open>build(filter_identifiers) -> callable(list[str]) -> list[str]\<close>: each transform of
  the chain is applied, in order, to every hypothesis.
\<close>

definition FilterChain :: "('v, 'd, 'l) env \<Rightarrow> string \<Rightarrow> string list \<Rightarrow> string list" where
  "FilterChain env filters hyps = foldl (\<lambda>hs f. map f hs) hyps (chain_of env filters)"

text \<open>Lines 73 to 78: the loop that fills \<^verbatim>\<open>input_dict\<close>.\<close>

fun parse_source :: "string list \<Rightarrow> (string \<rightharpoonup> path) \<Rightarrow> error + (string \<rightharpoonup> path)" where
  "parse_source [] input_dict = Inr input_dict"
| "parse_source (data_source # rest) input_dict =
     (case py_split1 CHR '':'' data_source of
        [key, p] \<Rightarrow> parse_source rest (input_dict(key \<mapsto> Path p))
      | _ \<Rightarrow> Inl ValueError)"

text \<open>Python truth values of the two optional arguments.\<close>

fun truthy_splits :: "splits_val \<Rightarrow> bool" where
  "truthy_splits NoneS = False"
| "truthy_splits (Str s) = (s \<noteq> [])"
| "truthy_splits (Lst l) = (l \<noteq> [])"

fun truthy_source :: "string option \<Rightarrow> bool" where
  "truthy_source None = False"
| "truthy_source (Some s) = (s \<noteq> [])"

text \<open>
  Lines 67 to 80, on the translator built so far. A list has no method \<^verbatim>\<open>split\<close>.
\<close>

definition resolve_splits :: "('v, 'd) translator \<Rightarrow> error + ('v, 'd) translator" where
  "resolve_splits tr =
     (if truthy_splits (splits tr) then
        (case splits tr of
           Str s \<Rightarrow> Inr (tr\<lparr>splits := Lst (py_split CHR '','' s)\<rparr>)
         | _ \<Rightarrow> Inl AttributeError)
      else if truthy_source (source tr) then
        (case parse_source (py_split CHR '','' (the (source tr))) Map.empty of
           Inl e \<Rightarrow> Inl e
         | Inr input_dict \<Rightarrow>
             (case instances tr of
                [] \<Rightarrow> Inl IndexError
              | i0 # rest \<Rightarrow>
                  Inr (tr\<lparr>instances := i0\<lparr>data := (data i0)(''new_set'' \<mapsto> input_dict)\<rparr> # rest,
                          splits := Lst [''new'']\<rparr>)))
      else Inr tr)"

text \<open>Lines 18 to 80.\<close>

definition init :: "('v, 'd, 'l) env \<Rightarrow> run_config \<Rightarrow> error + ('v, 'd) translator" where
  "init env kwargs =
     (case load_instances env (models kwargs) of
        Inl e \<Rightarrow> Inl e
      | Inr insts \<Rightarrow>
          (case sanity_check insts of
             Inl e \<Rightarrow> Inl e
           | Inr _ \<Rightarrow>
               (case insts of
                  [] \<Rightarrow> Inl IndexError
                | i0 # _ \<Rightarrow>
                    resolve_splits
                      (run_config.extend kwargs
                         (translator.fields (length (models kwargs)) insts
                            (if disable_filters kwargs \<or> eval_filters i0 = []
                             then (\<lambda>s. s)
                             else FilterChain env (eval_filters i0)))))))"

subsection \<open>Translating one split\<close>

text \<open>
  Lines 104 to 121. The argument \<open>insts\<close> is not used: the source reads
  \<^verbatim>\<open>self.instances[0]\<close>. Line 119 divides the number of hypotheses, converted to a
  float, by the elapsed time: the division raises when the elapsed time is zero, and
  \<^verbatim>\<open>math.floor\<close> raises on the float infinity. Otherwise the floor of the quotient is
  handed to the logger, and the filtered hypotheses are returned. The clock readings are
  finite floats, and so is their difference.
\<close>

definition translate ::
  "('v, 'd, 'l) env \<Rightarrow> ('v, 'd) translator \<Rightarrow> ('v, 'd) model_instance list \<Rightarrow> string \<Rightarrow> world
     \<Rightarrow> (error + string list) \<times> ('v, 'd) translator \<times> world" where
  "translate env tr insts split w =
     (case instances tr of
        [] \<Rightarrow> (Inl IndexError, tr, w)
      | inst0 # rest \<Rightarrow>
          (case load_data env inst0 split of
             Inl e \<Rightarrow> (Inl e, tr, w)
           | Inr inst \<Rightarrow>
               (let tr1 = tr\<lparr>instances := inst # rest\<rparr> in
                case datasets inst split of
                  None \<Rightarrow> (Inl (KeyError split), tr1, w)
                | Some ds \<Rightarrow>
                    (case get_iterator env ds (batch_size tr) True of
                       Inl e \<Rightarrow> (Inl e, tr1, w)
                     | Inr loader \<Rightarrow>
                         (let start = time_time env (ticks w);
                              w1 = w\<lparr>ticks := Suc (ticks w)\<rparr>
                          in case beam_search env inst loader (trg_vocab inst) (beam_size tr)
                                    (max_len tr) (avoid_double tr) (avoid_unk tr) of
                               Inl e \<Rightarrow> (Inl e, tr1, w1)
                             | Inr hyps \<Rightarrow>
                                 (let up_time = float_sub (time_time env (ticks w1)) start;
                                      w2 = w1\<lparr>ticks := Suc (ticks w1)\<rparr>
                                  in if up_time = 0 then (Inl ZeroDivisionError, tr1, w2)
                                     else
                                       (let rate = float_div
                                              (float_of_int (int (length hyps))) up_time
                                        in if 2 powi 1024 \<le> \<bar>rate\<bar>
                                           then (Inl OverflowError, tr1, w2)
                                           else (Inr (filter_f tr hyps), tr1,
                                                 w2\<lparr>reported :=
                                                      reported w2 @ [\<lfloor>rate\<rfloor>]\<rparr>))))))))"

subsection \<open>Writing the hypotheses\<close>

text \<open>Lines 129 to 138: the name of the output file.\<close>

definition dump_output :: "('v, 'd) translator \<Rightarrow> string \<Rightarrow> string" where
  "dump_output tr split =
     (let suffix = ''.beam'' @ str_int (beam_size tr);
          suffix = (if avoid_double tr then suffix @ ''.nodbl'' else suffix);
          suffix = (if avoid_unk tr then suffix @ ''.nounk'' else suffix)
      in if split = ''new'' then output_p tr @ suffix
         else output_p tr @ ''.'' @ split @ suffix)"

text \<open>
  Lines 141 and 142: \<open>buf\<close> is what has been written so far. A line that cannot be
  encoded raises, and what was written before stays in the file.
\<close>

fun write_lines :: "(string \<Rightarrow> bool) \<Rightarrow> string list \<Rightarrow> string \<Rightarrow> (error + unit) \<times> string" where
  "write_lines enc [] buf = (Inr (), buf)"
| "write_lines enc (line # rest) buf =
     (if enc (line @ ''\<newline>'') then write_lines enc rest (buf @ line @ ''\<newline>'')
      else (Inl UnicodeEncodeError, buf))"

text \<open>
  Lines 129 to 142. \<^verbatim>\<open>open(output, 'w')\<close> names no encoding, so the file gets the
  preferred encoding of the platform; mode \<^verbatim>\<open>'w'\<close> starts from an empty file.
\<close>

definition dump ::
  "('v, 'd, 'l) env \<Rightarrow> ('v, 'd) translator \<Rightarrow> string list \<Rightarrow> string \<Rightarrow> world
     \<Rightarrow> (error + unit) \<times> world" where
  "dump env tr hyps split w =
     (let out = dump_output tr split
      in if \<not> can_open env out then (Inl OSError, w)
         else (case write_lines (can_encode env) hyps [] of
                 (r, txt) \<Rightarrow>
                   (r, w\<lparr>files := (files w)(out \<mapsto>
                            \<lparr>encoding = preferred_encoding env, content = txt\<rparr>)\<rparr>)))"

subsection \<open>The run\<close>

text \<open>Lines 146 to 149, for the split names still to be processed.\<close>

fun call_loop ::
  "('v, 'd, 'l) env \<Rightarrow> ('v, 'd) translator \<Rightarrow> string list \<Rightarrow> world
     \<Rightarrow> (error + unit) \<times> ('v, 'd) translator \<times> world" where
  "call_loop env tr [] w = (Inr (), tr, w)"
| "call_loop env tr (input # rest) w =
     (case translate env tr (instances tr) input w of
        (Inl e, tr1, w1) \<Rightarrow> (Inl e, tr1, w1)
      | (Inr hyps, tr1, w1) \<Rightarrow>
          (case dump env tr1 hyps input w1 of
             (Inl e, w2) \<Rightarrow> (Inl e, tr1, w2)
           | (Inr _, w2) \<Rightarrow> call_loop env tr1 rest w2))"

text \<open>
  \<^verbatim>\<open>__call__\<close>: iterating over a string yields its characters, and \<^verbatim>\<open>None\<close> cannot
  be iterated over.
\<close>

definition call ::
  "('v, 'd, 'l) env \<Rightarrow> ('v, 'd) translator \<Rightarrow> world
     \<Rightarrow> (error + unit) \<times> ('v, 'd) translator \<times> world" where
  "call env tr w =
     (case splits tr of
        Lst l \<Rightarrow> call_loop env tr l w
      | Str s \<Rightarrow> call_loop env tr (map (\<lambda>c. [c]) s) w
      | NoneS \<Rightarrow> (Inl TypeError, tr, w))"

subsection \<open>The naming scheme and the other descriptions of the specification\<close>

text \<open>
  The output path as the specification words it: the base path, then the split name
  after a dot unless it is \<^verbatim>\<open>new\<close>, then \<^verbatim>\<open>.beam{B}\<close>, then \<^verbatim>\<open>.nodbl\<close> and
  \<^verbatim>\<open>.nounk\<close> for the two flags.
\<close>

definition spec_output_path :: "string \<Rightarrow> string \<Rightarrow> int \<Rightarrow> bool \<Rightarrow> bool \<Rightarrow> string" where
  "spec_output_path base split_name B nodbl nounk =
     base @ (if split_name = ''new'' then [] else ''.'' @ split_name)
       @ ''.beam'' @ str_int B
       @ (if nodbl then ''.nodbl'' else [])
       @ (if nounk then ''.nounk'' else [])"

text \<open>Reading a decimal numeral back, to show that \<open>str_int\<close> loses nothing.\<close>

definition digit_val :: "char \<Rightarrow> nat" where
  "digit_val c = of_char c - 48"

definition num_of :: "string \<Rightarrow> nat" where
  "num_of s = foldl (\<lambda>a c. 10 * a + digit_val c) 0 s"

text \<open>
  A source specification as the specification words it: every comma-separated piece
  is a key, a colon and a file name, and the data set maps each key to the path of the
  last piece that names it.
\<close>

definition source_key :: "string \<Rightarrow> string" where
  "source_key d = takeWhile (\<lambda>x. x \<noteq> CHR '':'') d"

definition source_file :: "string \<Rightarrow> string" where
  "source_file d = tl (dropWhile (\<lambda>x. x \<noteq> CHR '':'') d)"

definition spec_input_dict :: "string \<Rightarrow> (string \<rightharpoonup> path)" where
  "spec_input_dict src =
     map_of (rev (map (\<lambda>d. (source_key d, Path (source_file d))) (py_split CHR '','' src)))"

text \<open>The translator as lines 18 to 65 leave it, before the splits are resolved.\<close>

definition built :: "('v, 'd, 'l) env \<Rightarrow> run_config \<Rightarrow> ('v, 'd) model_instance list
    \<Rightarrow> ('v, 'd) translator" where
  "built env kwargs insts =
     run_config.extend kwargs
       (translator.fields (length (models kwargs)) insts
          (if disable_filters kwargs \<or> eval_filters (hd insts) = [] then (\<lambda>s. s)
           else FilterChain env (eval_filters (hd insts))))"

text \<open>
  The lines of a text file: the pieces between the newline characters; the piece after
  the last newline counts only when it is not empty.
\<close>

definition file_lines :: "string \<Rightarrow> string list" where
  "file_lines txt =
     (let pieces = py_split CHR ''\<newline>'' txt
      in if last pieces = [] then butlast pieces else pieces)"

subsection \<open>An example run\<close>

text \<open>
  One checkpoint, beam width 4, no flags, the split \<^verbatim>\<open>test\<close> and the base path
  \<^verbatim>\<open>out/run\<close>. The data set \<^verbatim>\<open>missing\<close> cannot be loaded, and the checkpoint
  \<^verbatim>\<open>big.ckpt\<close> holds a model with a larger target vocabulary. The checkpoint
  \<^verbatim>\<open>bpe.ckpt\<close> declares the filter \<^verbatim>\<open>de-bpe\<close>, which here removes the character
  \<^verbatim>\<open>@\<close>.
\<close>

definition ex_config :: run_config where
  "ex_config = \<lparr> models = [''m1.ckpt''], beam_size = 4, batch_size = 16, max_len = 100,
     avoid_double = False, avoid_unk = False, disable_filters = False,
     output_p = ''out/run'', splits = Str ''test'', source = None \<rparr>"

definition ex_instance :: "(unit, unit) model_instance" where
  "ex_instance = \<lparr> eval_filters = [], data = Map.empty, sl = ''en'', n_trg_vocab = 100,
     trg_vocab = (), datasets = Map.empty \<rparr>"

definition ex_env :: "(unit, unit, unit) env" where
  "ex_env = \<lparr>
     load_pt_file = (\<lambda>model_file.
        if model_file = ''big.ckpt'' then Inr (ex_instance\<lparr>n_trg_vocab := 200\<rparr>)
        else if model_file = ''bpe.ckpt'' then Inr (ex_instance\<lparr>eval_filters := ''de-bpe''\<rparr>)
        else Inr ex_instance),
     load_data = (\<lambda>inst split.
        if split = ''missing'' then Inl (External ''no such data set'')
        else Inr (inst\<lparr>datasets := (datasets inst)(split \<mapsto> ())\<rparr>)),
     get_iterator = (\<lambda>ds bs only_source. Inr ()),
     beam_search = (\<lambda>inst loader vocab bs ml ad au. Inr [''hello world'', ''bye'']),
     chain_of = (\<lambda>filters.
        if filters = ''de-bpe'' then [filter (\<lambda>c. c \<noteq> CHR ''@'')] else []),
     time_time = (\<lambda>k. real k),
     can_open = (\<lambda>p. True),
     preferred_encoding = ''UTF-8'',
     can_encode = (\<lambda>text. True) \<rparr>"

text \<open>
  The same run with a clock that does not advance, and with a mocked clock that reads
  \<open>0.0\<close> and then \<open>0.1\<close>, the double nearest to one tenth, around a search that returns
  one hypothesis.
\<close>

definition ex_env_frozen :: "(unit, unit, unit) env" where
  "ex_env_frozen = ex_env\<lparr>time_time := (\<lambda>k. 0)\<rparr>"

definition ex_env_mocked :: "(unit, unit, unit) env" where
  "ex_env_mocked = ex_env\<lparr>
     time_time := (\<lambda>k. if k = 0 then 0 else 3602879701896397 / 36028797018963968),
     beam_search := (\<lambda>inst loader vocab bs ml ad au. Inr [''hi''])\<rparr>"

definition ex_translator :: "(unit, unit) translator" where
  "ex_translator =
     run_config.extend ex_config (translator.fields 1 [ex_instance] (\<lambda>s. s))"

definition ex_world :: world where
  "ex_world = \<lparr> files = Map.empty, ticks = 0, reported = [] \<rparr>"

section \<open>Properties\<close>

subsection \<open>Decimal numerals\<close>

declare digits.simps [simp del]

lemma digit_cases:
  "d < 10 \<Longrightarrow> d = 0 \<or> d = 1 \<or> d = 2 \<or> d = 3 \<or> d = 4 \<or> d = 5 \<or> d = 6 \<or> d = 7 \<or> d = 8 \<or> d = (9::nat)"
  by arith

lemma digit_val_digit_char: "d < 10 \<Longrightarrow> digit_val (digit_char d) = d"
  by (drule digit_cases, elim disjE) (simp_all add: digit_val_def digit_char_def)

lemma digit_char_not_minus: "d < 10 \<Longrightarrow> digit_char d \<noteq> CHR ''-''"
  by (drule digit_cases, elim disjE) (simp_all add: digit_char_def)

lemma num_of_snoc: "num_of (s @ [c]) = 10 * num_of s + digit_val c"
  by (simp add: num_of_def)

lemma num_of_digits: "num_of (digits n) = n"
proof (induction n rule: digits.induct)
  case (1 n)
  show ?case
  proof (cases "n < 10")
    case True
    then show ?thesis
      by (subst digits.simps) (simp add: num_of_def digit_val_digit_char)
  next
    case False
    with 1 have "num_of (digits (n div 10)) = n div 10" by simp
    with False show ?thesis
      by (subst digits.simps) (simp add: num_of_snoc digit_val_digit_char)
  qed
qed

lemma digits_inj: "digits m = digits n \<Longrightarrow> m = n"
  by (metis num_of_digits)

lemma hd_digits: "digits n \<noteq> [] \<and> hd (digits n) \<noteq> CHR ''-''"
proof (induction n rule: digits.induct)
  case (1 n)
  show ?case
  proof (cases "n < 10")
    case True
    then show ?thesis
      by (subst (1 2) digits.simps) (simp add: digit_char_not_minus)
  next
    case False
    with 1 have "digits (n div 10) \<noteq> [] \<and> hd (digits (n div 10)) \<noteq> CHR ''-''" by simp
    with False show ?thesis
      by (subst (1 2) digits.simps) simp
  qed
qed

lemma str_int_inj: "str_int a = str_int b \<Longrightarrow> a = b"
proof -
  assume eq: "str_int a = str_int b"
  have neg: "CHR ''-'' # digits m \<noteq> digits n" for m n
    using hd_digits [of n] by (cases "digits n") auto
  show ?thesis
  proof (cases "a < 0"; cases "b < 0")
    assume "a < 0" "b < 0"
    with eq have "nat (- a) = nat (- b)" by (auto simp: str_int_def dest: digits_inj)
    with \<open>a < 0\<close> \<open>b < 0\<close> show ?thesis by simp
  next
    assume "a < 0" "\<not> b < 0"
    with eq neg show ?thesis by (simp add: str_int_def)
  next
    assume "\<not> a < 0" "b < 0"
    with eq neg [of "nat (- b)" "nat a"] show ?thesis by (simp add: str_int_def)
  next
    assume "\<not> a < 0" "\<not> b < 0"
    with eq have "nat a = nat b" by (auto simp: str_int_def dest: digits_inj)
    with \<open>\<not> a < 0\<close> \<open>\<not> b < 0\<close> show ?thesis by simp
  qed
qed

subsection \<open>The example run, evaluated\<close>

lemma ex_translator_sel:
  "beam_size ex_translator = 4" "avoid_double ex_translator = False"
  "avoid_unk ex_translator = False" "output_p ex_translator = ''out/run''"
  "batch_size ex_translator = 16" "max_len ex_translator = 100"
  "instances ex_translator = [ex_instance]" "filter_f ex_translator = (\<lambda>s. s)"
  "splits ex_translator = Str ''test''" "source ex_translator = None"
  by (simp_all add: ex_translator_def ex_config_def run_config.defs translator.defs)

lemma ex_env_sel:
  "load_pt_file ex_env = (\<lambda>model_file.
        if model_file = ''big.ckpt'' then Inr (ex_instance\<lparr>n_trg_vocab := 200\<rparr>)
        else if model_file = ''bpe.ckpt'' then Inr (ex_instance\<lparr>eval_filters := ''de-bpe''\<rparr>)
        else Inr ex_instance)"
  "load_data ex_env = (\<lambda>inst split.
        if split = ''missing'' then Inl (External ''no such data set'')
        else Inr (inst\<lparr>datasets := (datasets inst)(split \<mapsto> ())\<rparr>))"
  "get_iterator ex_env = (\<lambda>ds bs only_source. Inr ())"
  "beam_search ex_env = (\<lambda>inst loader vocab bs ml ad au. Inr [''hello world'', ''bye''])"
  "chain_of ex_env = (\<lambda>filters.
        if filters = ''de-bpe'' then [filter (\<lambda>c. c \<noteq> CHR ''@'')] else [])"
  "time_time ex_env = (\<lambda>k. real k)"
  "can_open ex_env = (\<lambda>p. True)"
  "preferred_encoding ex_env = ''UTF-8''"
  "can_encode ex_env = (\<lambda>text. True)"
  by (simp_all add: ex_env_def)

lemma round_double_1: "round_double 1 = 1"
  by code_simp

lemma round_double_2: "round_double 2 = 2"
  by code_simp

lemma ex_floats:
  "float_sub (1 + x) x = 1" "float_div (float_of_int 2) 1 = 2" "\<not> 2 powi 1024 \<le> (2::real)"
  by (simp_all add: float_sub_def float_div_def float_of_int_def round_double_1 round_double_2)

lemma str_int_4: "str_int 4 = ''4''"
  by (simp add: str_int_def digits.simps digit_char_def)

subsection \<open>The output path\<close>

lemma dump_output_eq:
  "dump_output tr split =
     output_p tr @ (if split = ''new'' then [] else ''.'' @ split) @ ''.beam''
       @ str_int (beam_size tr) @ (if avoid_double tr then ''.nodbl'' else [])
       @ (if avoid_unk tr then ''.nounk'' else [])"
  by (simp add: dump_output_def Let_def)

lemma dump_files:
  "files (snd (dump env tr hyps split w)) =
     (if can_open env (dump_output tr split)
      then (files w)(dump_output tr split \<mapsto>
             \<lparr>encoding = preferred_encoding env,
              content = snd (write_lines (can_encode env) hyps [])\<rparr>)
      else files w)"
  by (simp add: dump_def Let_def split: prod.splits)

text \<open>
  C1. The file that \<open>dump\<close> writes is the one at the path the specification describes:
  the base output path, then \<^verbatim>\<open>.{split}\<close> unless the split is \<^verbatim>\<open>new\<close>, then
  \<^verbatim>\<open>.beam{B}\<close>, then \<^verbatim>\<open>.nodbl\<close> exactly when repeats are avoided, then \<^verbatim>\<open>.nounk\<close>
  exactly when unknown tokens are avoided. No other path of the file system is touched,
  and when the file can be opened it exists afterwards.
\<close>

theorem dump_path_as_specified:
  "dump_output tr split =
     spec_output_path (output_p tr) split (beam_size tr) (avoid_double tr) (avoid_unk tr)
   \<and> files (snd (dump env tr hyps split w)) =
       (files w)(dump_output tr split := files (snd (dump env tr hyps split w)) (dump_output tr split))
   \<and> (can_open env (dump_output tr split) \<longrightarrow>
        files (snd (dump env tr hyps split w)) (dump_output tr split) \<noteq> None)"
  by (simp add: dump_output_eq spec_output_path_def dump_files)

theorem dump_path_as_specified_witness:
  "dump_output ex_translator ''test'' = ''out/run.test.beam4''
   \<and> can_open ex_env ''out/run.test.beam4''
   \<and> files (snd (dump ex_env ex_translator [''hello''] ''test'' ex_world)) ''out/run.test.beam4''
       \<noteq> None"
proof -
  note spec = dump_path_as_specified [of ex_translator "''test''" ex_env "[''hello'']" ex_world]
  from spec have p: "dump_output ex_translator ''test'' = ''out/run.test.beam4''"
    by (simp add: spec_output_path_def ex_translator_sel str_int_4)
  have o: "can_open ex_env ''out/run.test.beam4''"
    by (simp add: ex_env_sel)
  from spec o have
    "files (snd (dump ex_env ex_translator [''hello''] ''test'' ex_world)) ''out/run.test.beam4''
       \<noteq> None"
    unfolding p by blast
  with p o show ?thesis
    by blast
qed

text \<open>
  C4. The output path depends on the base path, the split name, the beam width and the
  two flags only, and changing the split name, the beam width or either flag alone
  changes the path.
\<close>

theorem dump_output_injective:
  "(output_p tr' = output_p tr \<and> beam_size tr' = beam_size tr \<and> avoid_double tr' = avoid_double tr
      \<and> avoid_unk tr' = avoid_unk tr \<longrightarrow> dump_output tr' split = dump_output tr split)
   \<and> (split' \<noteq> split \<longrightarrow> dump_output tr split' \<noteq> dump_output tr split)
   \<and> (b \<noteq> beam_size tr \<longrightarrow> dump_output (tr\<lparr>beam_size := b\<rparr>) split \<noteq> dump_output tr split)
   \<and> dump_output (tr\<lparr>avoid_double := \<not> avoid_double tr\<rparr>) split \<noteq> dump_output tr split
   \<and> dump_output (tr\<lparr>avoid_unk := \<not> avoid_unk tr\<rparr>) split \<noteq> dump_output tr split"
proof (intro conjI impI)
  assume "output_p tr' = output_p tr \<and> beam_size tr' = beam_size tr
    \<and> avoid_double tr' = avoid_double tr \<and> avoid_unk tr' = avoid_unk tr"
  then show "dump_output tr' split = dump_output tr split"
    by (simp add: dump_output_eq)
next
  assume ne: "split' \<noteq> split"
  show "dump_output tr split' \<noteq> dump_output tr split"
  proof
    assume eq: "dump_output tr split' = dump_output tr split"
    define t where "t = ''.beam'' @ str_int (beam_size tr)
      @ (if avoid_double tr then ''.nodbl'' else []) @ (if avoid_unk tr then ''.nounk'' else [])"
    have d: "dump_output tr s = output_p tr @ (if s = ''new'' then [] else ''.'' @ s) @ t" for s
      by (simp add: dump_output_eq t_def)
    from eq have "(if split' = ''new'' then [] else ''.'' @ split') @ t
        = (if split = ''new'' then [] else ''.'' @ split) @ t"
      by (simp add: d)
    then have "(if split' = ''new'' then [] else ''.'' @ split')
        = (if split = ''new'' then [] else ''.'' @ split)"
      by (rule append_same_eq [THEN iffD1])
    with ne show False
      by (auto split: if_splits)
  qed
next
  assume ne: "b \<noteq> beam_size tr"
  show "dump_output (tr\<lparr>beam_size := b\<rparr>) split \<noteq> dump_output tr split"
  proof
    assume "dump_output (tr\<lparr>beam_size := b\<rparr>) split = dump_output tr split"
    then have "str_int b = str_int (beam_size tr)"
      by (simp add: dump_output_eq)
    with ne show False
      by (auto dest: str_int_inj)
  qed
next
  show "dump_output (tr\<lparr>avoid_double := \<not> avoid_double tr\<rparr>) split \<noteq> dump_output tr split"
  proof
    assume "dump_output (tr\<lparr>avoid_double := \<not> avoid_double tr\<rparr>) split = dump_output tr split"
    then have "length (dump_output (tr\<lparr>avoid_double := \<not> avoid_double tr\<rparr>) split)
        = length (dump_output tr split)"
      by simp
    then show False
      by (simp add: dump_output_eq split: if_splits)
  qed
next
  show "dump_output (tr\<lparr>avoid_unk := \<not> avoid_unk tr\<rparr>) split \<noteq> dump_output tr split"
  proof
    assume "dump_output (tr\<lparr>avoid_unk := \<not> avoid_unk tr\<rparr>) split = dump_output tr split"
    then have "length (dump_output (tr\<lparr>avoid_unk := \<not> avoid_unk tr\<rparr>) split)
        = length (dump_output tr split)"
      by simp
    then show False
      by (simp add: dump_output_eq split: if_splits)
  qed
qed

theorem dump_output_injective_witness:
  "dump_output (ex_translator\<lparr>n_models := 2\<rparr>) ''test'' = dump_output ex_translator ''test''
   \<and> dump_output ex_translator ''valid'' \<noteq> dump_output ex_translator ''test''
   \<and> dump_output (ex_translator\<lparr>beam_size := 12\<rparr>) ''test'' \<noteq> dump_output ex_translator ''test''
   \<and> dump_output (ex_translator\<lparr>avoid_double := True\<rparr>) ''test''
       \<noteq> dump_output ex_translator ''test''
   \<and> dump_output (ex_translator\<lparr>avoid_unk := True\<rparr>) ''test''
       \<noteq> dump_output ex_translator ''test''"
  using dump_output_injective
    [of "ex_translator\<lparr>n_models := 2\<rparr>" ex_translator "''test''" "''valid''" 12]
  by (simp add: ex_translator_sel)

subsection \<open>The sanity check\<close>

lemma ex_instance_sel:
  "eval_filters ex_instance = []" "n_trg_vocab ex_instance = 100" "data ex_instance = Map.empty"
  "datasets ex_instance = Map.empty" "trg_vocab ex_instance = ()"
  by (simp_all add: ex_instance_def)

lemma remdups_one_iff:
  "xs \<noteq> [] \<Longrightarrow> (length (remdups xs) = 1) = (\<forall>a\<in>set xs. \<forall>b\<in>set xs. a = b)"
proof -
  assume ne: "xs \<noteq> []"
  have "(length (remdups xs) = 1) = (card (set xs) = 1)"
    by (simp add: length_remdups_card_conv)
  also have "\<dots> = (\<exists>x. set xs = {x})"
    by (simp add: card_1_singleton_iff)
  also have "\<dots> = (\<forall>a\<in>set xs. \<forall>b\<in>set xs. a = b)"
  proof
    assume "\<exists>x. set xs = {x}"
    then show "\<forall>a\<in>set xs. \<forall>b\<in>set xs. a = b" by auto
  next
    assume all: "\<forall>a\<in>set xs. \<forall>b\<in>set xs. a = b"
    from ne have "hd xs \<in> set xs" by simp
    with all have "set xs = {hd xs}" by auto
    then show "\<exists>x. set xs = {x}" ..
  qed
  finally show ?thesis .
qed

lemma remdups_pos: "xs \<noteq> [] \<Longrightarrow> 0 < length (remdups xs)"
  by (cases xs) auto

lemma remdups_less_two_iff:
  "xs \<noteq> [] \<Longrightarrow> (length (remdups xs) < 2) = (\<forall>a\<in>set xs. \<forall>b\<in>set xs. a = b)"
proof -
  assume ne: "xs \<noteq> []"
  from remdups_pos [OF ne] have "(length (remdups xs) < 2) = (length (remdups xs) = 1)"
    by arith
  with remdups_one_iff [OF ne] show ?thesis by simp
qed

lemma sanity_check_accepts_iff:
  assumes "insts \<noteq> []"
  shows "(sanity_check insts = Inr ()) =
     (\<forall>i\<in>set insts. \<forall>j\<in>set insts.
        eval_filters i = eval_filters j \<and> n_trg_vocab i = n_trg_vocab j)"
proof -
  from assms have a: "map eval_filters insts \<noteq> []" and b: "map n_trg_vocab insts \<noteq> []"
    by simp_all
  have "(sanity_check insts = Inr ()) =
      (length (remdups (map eval_filters insts)) < 2
       \<and> length (remdups (map n_trg_vocab insts)) = 1)"
    by (simp add: sanity_check_def)
  also have "\<dots> = ((\<forall>i\<in>set insts. \<forall>j\<in>set insts. eval_filters i = eval_filters j)
       \<and> (\<forall>i\<in>set insts. \<forall>j\<in>set insts. n_trg_vocab i = n_trg_vocab j))"
    by (simp add: remdups_less_two_iff [OF a] remdups_one_iff [OF b, unfolded One_nat_def])
  also have "\<dots> = (\<forall>i\<in>set insts. \<forall>j\<in>set insts.
        eval_filters i = eval_filters j \<and> n_trg_vocab i = n_trg_vocab j)"
    by blast
  finally show ?thesis .
qed

lemma sanity_check_error:
  "sanity_check insts \<noteq> Inr () \<Longrightarrow> \<exists>msg. sanity_check insts = Inl (AssertionError msg)"
  by (simp add: sanity_check_def split: if_splits)

lemma init_rejected:
  "load_instances env (models kwargs) = Inr insts \<Longrightarrow> sanity_check insts = Inl e
     \<Longrightarrow> init env kwargs = Inl e"
  by (simp add: init_def)

lemma load_instances_search_free:
  "load_instances (env\<lparr>load_data := l, get_iterator := g, beam_search := b\<rparr>) ms = load_instances env ms"
  by (induction ms) (simp_all split: sum.splits)

lemma FilterChain_search_free:
  "FilterChain (env\<lparr>load_data := l, get_iterator := g, beam_search := b\<rparr>) filters
     = FilterChain env filters"
  by (rule ext) (simp add: FilterChain_def)

lemma init_search_free:
  "init (env\<lparr>load_data := l, get_iterator := g, beam_search := b\<rparr>) kwargs = init env kwargs"
  by (simp add: init_def load_instances_search_free FilterChain_search_free
        split: sum.splits list.splits)

text \<open>
  C2. A non-empty ensemble passes the sanity check exactly when all its instances have
  the same \<^verbatim>\<open>eval_filters\<close> and the same target vocabulary size. When the check
  fails, the constructor raises the assertion error, so no translator exists that could
  decode; and the constructor never calls the data loading, the iterator or the search.
\<close>

theorem sanity_check_spec:
  assumes "insts \<noteq> []"
  shows "(sanity_check insts = Inr ()) =
           (\<forall>i\<in>set insts. \<forall>j\<in>set insts.
              eval_filters i = eval_filters j \<and> n_trg_vocab i = n_trg_vocab j)
    \<and> (load_instances env (models kwargs) = Inr insts \<and> sanity_check insts \<noteq> Inr () \<longrightarrow>
         (\<exists>msg. init env kwargs = Inl (AssertionError msg)))
    \<and> init (env\<lparr>load_data := l, get_iterator := g, beam_search := b\<rparr>) kwargs = init env kwargs"
proof (intro conjI impI)
  show "(sanity_check insts = Inr ()) =
           (\<forall>i\<in>set insts. \<forall>j\<in>set insts.
              eval_filters i = eval_filters j \<and> n_trg_vocab i = n_trg_vocab j)"
    by (rule sanity_check_accepts_iff [OF assms])
next
  assume h: "load_instances env (models kwargs) = Inr insts \<and> sanity_check insts \<noteq> Inr ()"
  then obtain msg where "sanity_check insts = Inl (AssertionError msg)"
    using sanity_check_error by blast
  with h have "init env kwargs = Inl (AssertionError msg)"
    by (simp add: init_rejected)
  then show "\<exists>msg. init env kwargs = Inl (AssertionError msg)" ..
next
  show "init (env\<lparr>load_data := l, get_iterator := g, beam_search := b\<rparr>) kwargs = init env kwargs"
    by (rule init_search_free)
qed

lemma ex_load_two:
  "load_instances ex_env (models (ex_config\<lparr>models := [''m1.ckpt'', ''big.ckpt'']\<rparr>))
     = Inr [ex_instance, ex_instance\<lparr>n_trg_vocab := 200\<rparr>]"
  by (simp add: ex_env_sel)

theorem sanity_check_spec_witness:
  "sanity_check [ex_instance, ex_instance] = Inr ()
   \<and> sanity_check [ex_instance, ex_instance\<lparr>n_trg_vocab := 200\<rparr>] \<noteq> Inr ()
   \<and> isl (init ex_env (ex_config\<lparr>models := [''m1.ckpt'', ''big.ckpt'']\<rparr>))"
proof -
  have a: "sanity_check [ex_instance, ex_instance] = Inr ()"
    using sanity_check_spec [where insts = "[ex_instance, ex_instance]" and env = ex_env
        and kwargs = ex_config and l = "load_data ex_env" and g = "get_iterator ex_env"
        and b = "beam_search ex_env"]
    by simp
  note r = sanity_check_spec [where insts = "[ex_instance, ex_instance\<lparr>n_trg_vocab := 200\<rparr>]"
      and env = ex_env and kwargs = "ex_config\<lparr>models := [''m1.ckpt'', ''big.ckpt'']\<rparr>"
      and l = "load_data ex_env" and g = "get_iterator ex_env" and b = "beam_search ex_env"]
  from r have b: "sanity_check [ex_instance, ex_instance\<lparr>n_trg_vocab := 200\<rparr>] \<noteq> Inr ()"
    by (simp add: ex_instance_sel)
  from r b ex_load_two
  have "\<exists>msg. init ex_env (ex_config\<lparr>models := [''m1.ckpt'', ''big.ckpt'']\<rparr>)
      = Inl (AssertionError msg)"
    by blast
  then have c: "isl (init ex_env (ex_config\<lparr>models := [''m1.ckpt'', ''big.ckpt'']\<rparr>))"
    by auto
  from a b c show ?thesis by blast
qed

subsection \<open>Resolving the splits\<close>

lemma py_split_acc_nonempty: "py_split_acc c acc s \<noteq> []"
  by (induction s arbitrary: acc) simp_all

lemma py_join_Cons: "ps \<noteq> [] \<Longrightarrow> py_join c (p # ps) = p @ c # py_join c ps"
  by (cases ps) simp_all

lemma py_join_split_acc: "py_join c (py_split_acc c acc s) = rev acc @ s"
proof (induction s arbitrary: acc)
  case Nil
  show ?case by simp
next
  case (Cons x xs)
  show ?case
  proof (cases "x = c")
    case True
    then show ?thesis
      by (simp add: py_join_Cons [OF py_split_acc_nonempty] Cons.IH)
  next
    case False
    then show ?thesis
      by (simp add: Cons.IH)
  qed
qed

lemma py_split_acc_pieces:
  "c \<notin> set acc \<Longrightarrow> \<forall>p\<in>set (py_split_acc c acc s). c \<notin> set p"
proof (induction s arbitrary: acc)
  case Nil
  then show ?case by simp
next
  case (Cons x xs)
  show ?case
  proof (cases "x = c")
    case True
    with Cons.prems Cons.IH [of "[]"] show ?thesis by simp
  next
    case False
    with Cons.prems Cons.IH [of "x # acc"] show ?thesis by simp
  qed
qed

lemma py_join_split: "py_join c (py_split c s) = s"
  by (simp add: py_split_def py_join_split_acc)

lemma py_split_pieces: "\<forall>p\<in>set (py_split c s). c \<notin> set p"
  unfolding py_split_def by (rule py_split_acc_pieces) simp

lemma source_pair:
  "CHR '':'' \<in> set d \<Longrightarrow>
     d = source_key d @ CHR '':'' # source_file d \<and> CHR '':'' \<notin> set (source_key d)"
proof -
  assume m: "CHR '':'' \<in> set d"
  let ?P = "\<lambda>x. x \<noteq> CHR '':''"
  from m have ne: "dropWhile ?P d \<noteq> []" by simp
  then have "hd (dropWhile ?P d) = CHR '':''"
    using hd_dropWhile [of ?P d] by simp
  with ne have "dropWhile ?P d = CHR '':'' # tl (dropWhile ?P d)"
    by (cases "dropWhile ?P d") simp_all
  then have "d = takeWhile ?P d @ CHR '':'' # tl (dropWhile ?P d)"
    using takeWhile_dropWhile_id [of ?P d] by simp
  moreover have "CHR '':'' \<notin> set (takeWhile ?P d)"
    by (auto dest: set_takeWhileD)
  ultimately show ?thesis
    by (simp add: source_key_def source_file_def)
qed

lemma parse_source_ok:
  "\<forall>d\<in>set ds. CHR '':'' \<in> set d \<Longrightarrow>
     parse_source ds m = Inr (m ++ map_of (rev (map (\<lambda>d. (source_key d, Path (source_file d))) ds)))"
proof (induction ds arbitrary: m)
  case Nil
  show ?case by simp
next
  case (Cons d ds)
  then have c: "CHR '':'' \<in> set d" and rest: "\<forall>d\<in>set ds. CHR '':'' \<in> set d"
    by simp_all
  from c have "py_split1 CHR '':'' d = [source_key d, source_file d]"
    by (simp add: py_split1_def source_key_def source_file_def)
  then have "parse_source (d # ds) m = parse_source ds (m(source_key d \<mapsto> Path (source_file d)))"
    by simp
  also have "\<dots> = Inr (m(source_key d \<mapsto> Path (source_file d))
       ++ map_of (rev (map (\<lambda>d. (source_key d, Path (source_file d))) ds)))"
    by (rule Cons.IH [OF rest])
  also have "m(source_key d \<mapsto> Path (source_file d))
       ++ map_of (rev (map (\<lambda>d. (source_key d, Path (source_file d))) ds))
     = m ++ map_of (rev (map (\<lambda>d. (source_key d, Path (source_file d))) (d # ds)))"
    by (rule ext) (simp add: map_add_def split: option.splits)
  finally show ?case .
qed


lemma built_sel:
  "splits (built env kwargs insts) = splits kwargs"
  "source (built env kwargs insts) = source kwargs"
  "instances (built env kwargs insts) = insts"
  "beam_size (built env kwargs insts) = beam_size kwargs"
  "output_p (built env kwargs insts) = output_p kwargs"
  "avoid_double (built env kwargs insts) = avoid_double kwargs"
  "avoid_unk (built env kwargs insts) = avoid_unk kwargs"
  "filter_f (built env kwargs insts) =
     (if disable_filters kwargs \<or> eval_filters (hd insts) = [] then (\<lambda>s. s)
      else FilterChain env (eval_filters (hd insts)))"
  by (simp_all add: built_def run_config.defs translator.defs)

lemma built_source: "built env (kwargs\<lparr>source := x\<rparr>) insts = (built env kwargs insts)\<lparr>source := x\<rparr>"
  by (simp add: built_def run_config.defs translator.defs)

lemma init_loaded:
  "load_instances env (models kwargs) = Inr (i0 # rest) \<Longrightarrow> sanity_check (i0 # rest) = Inr ()
     \<Longrightarrow> init env kwargs = resolve_splits (built env kwargs (i0 # rest))"
  by (simp add: init_def built_def)

lemma resolve_explicit:
  "splits tr = Str s \<Longrightarrow> s \<noteq> [] \<Longrightarrow>
     resolve_splits tr = Inr (tr\<lparr>splits := Lst (py_split CHR '','' s)\<rparr>)"
  by (simp add: resolve_splits_def)

lemma resolve_source:
  assumes "\<not> truthy_splits (splits tr)" and "source tr = Some src" and "src \<noteq> []"
    and "\<forall>d\<in>set (py_split CHR '','' src). CHR '':'' \<in> set d"
    and "instances tr = i0 # rest"
  shows "resolve_splits tr =
     Inr (tr\<lparr>instances := i0\<lparr>data := (data i0)(''new_set'' \<mapsto> spec_input_dict src)\<rparr> # rest,
             splits := Lst [''new'']\<rparr>)"
  using assms
  by (simp add: resolve_splits_def parse_source_ok spec_input_dict_def)

text \<open>
  C3. With a non-empty string of split names, the resolved list is that string cut at
  its commas: joining the pieces with commas gives the string back and no piece holds a
  comma, so the order is the order of the string. Otherwise, with a source
  specification whose pieces all hold a colon, the resolved list is \<^verbatim>\<open>["new"]\<close> and
  the first instance's data options get the parsed mapping under \<^verbatim>\<open>new_set\<close>; each
  piece is its key, a colon and its file name.
\<close>

theorem split_resolution:
  assumes "load_instances env (models kwargs) = Inr (i0 # rest)"
    and "sanity_check (i0 # rest) = Inr ()"
  shows "(splits kwargs = Str s \<and> s \<noteq> [] \<longrightarrow>
            (\<exists>tr. init env kwargs = Inr tr \<and> splits tr = Lst (py_split CHR '','' s))
            \<and> py_join CHR '','' (py_split CHR '','' s) = s
            \<and> (\<forall>p\<in>set (py_split CHR '','' s). CHR '','' \<notin> set p))
    \<and> (\<not> truthy_splits (splits kwargs) \<and> source kwargs = Some src \<and> src \<noteq> []
          \<and> (\<forall>d\<in>set (py_split CHR '','' src). CHR '':'' \<in> set d) \<longrightarrow>
            (\<exists>tr. init env kwargs = Inr tr \<and> splits tr = Lst [''new'']
               \<and> instances tr =
                   i0\<lparr>data := (data i0)(''new_set'' \<mapsto> spec_input_dict src)\<rparr> # rest)
            \<and> (\<forall>d\<in>set (py_split CHR '','' src).
                  d = source_key d @ CHR '':'' # source_file d
                  \<and> CHR '':'' \<notin> set (source_key d)))"
proof (intro conjI impI)
  assume h: "splits kwargs = Str s \<and> s \<noteq> []"
  then have "init env kwargs
      = Inr ((built env kwargs (i0 # rest))\<lparr>splits := Lst (py_split CHR '','' s)\<rparr>)"
    by (simp add: init_loaded [OF assms] resolve_explicit built_sel)
  then show "\<exists>tr. init env kwargs = Inr tr \<and> splits tr = Lst (py_split CHR '','' s)"
    by simp
next
  show "py_join CHR '','' (py_split CHR '','' s) = s"
    by (rule py_join_split)
next
  show "\<forall>p\<in>set (py_split CHR '','' s). CHR '','' \<notin> set p"
    by (rule py_split_pieces)
next
  assume h: "\<not> truthy_splits (splits kwargs) \<and> source kwargs = Some src \<and> src \<noteq> []
          \<and> (\<forall>d\<in>set (py_split CHR '','' src). CHR '':'' \<in> set d)"
  then have "init env kwargs
      = Inr ((built env kwargs (i0 # rest))
          \<lparr>instances := i0\<lparr>data := (data i0)(''new_set'' \<mapsto> spec_input_dict src)\<rparr> # rest,
           splits := Lst [''new'']\<rparr>)"
    by (simp add: init_loaded [OF assms] resolve_source [where src = src] built_sel)
  then show "\<exists>tr. init env kwargs = Inr tr \<and> splits tr = Lst [''new'']
               \<and> instances tr =
                   i0\<lparr>data := (data i0)(''new_set'' \<mapsto> spec_input_dict src)\<rparr> # rest"
    by simp
next
  assume h: "\<not> truthy_splits (splits kwargs) \<and> source kwargs = Some src \<and> src \<noteq> []
          \<and> (\<forall>d\<in>set (py_split CHR '','' src). CHR '':'' \<in> set d)"
  then show "\<forall>d\<in>set (py_split CHR '','' src).
                  d = source_key d @ CHR '':'' # source_file d
                  \<and> CHR '':'' \<notin> set (source_key d)"
    by (blast dest: source_pair)
qed

text \<open>
  C10. When a non-empty string of split names and a source specification are both given,
  the split names win: the list comes from them, the instances are the loaded ones
  (their data options untouched), and the source specification changes nothing but the
  attribute that stores it.
\<close>

theorem explicit_splits_take_precedence:
  assumes "load_instances env (models kwargs) = Inr (i0 # rest)"
    and "sanity_check (i0 # rest) = Inr ()"
    and "splits kwargs = Str s" and "s \<noteq> []"
  shows "\<exists>tr. init env kwargs = Inr tr
           \<and> splits tr = Lst (py_split CHR '','' s)
           \<and> instances tr = i0 # rest
           \<and> init env (kwargs\<lparr>source := src\<rparr>) = Inr (tr\<lparr>source := src\<rparr>)"
proof -
  let ?tr = "(built env kwargs (i0 # rest))\<lparr>splits := Lst (py_split CHR '','' s)\<rparr>"
  from assms have a: "init env kwargs = Inr ?tr"
    by (simp add: init_loaded resolve_explicit built_sel)
  from assms have "init env (kwargs\<lparr>source := src\<rparr>)
      = resolve_splits (built env (kwargs\<lparr>source := src\<rparr>) (i0 # rest))"
    by (simp add: init_loaded)
  also from assms have "\<dots> = Inr (?tr\<lparr>source := src\<rparr>)"
    by (simp add: resolve_explicit built_sel built_source)
  finally have b: "init env (kwargs\<lparr>source := src\<rparr>) = Inr (?tr\<lparr>source := src\<rparr>)" .
  from a b show ?thesis
    by (simp add: built_sel)
qed


lemma ex_load_one:
  "models kwargs = [''m1.ckpt''] \<Longrightarrow> load_instances ex_env (models kwargs) = Inr [ex_instance]"
  by (simp add: ex_env_sel)

lemma ex_sanity_one: "sanity_check [ex_instance] = Inr ()"
  by (simp add: sanity_check_def)

lemma ex_config_sel:
  "models ex_config = [''m1.ckpt'']" "splits ex_config = Str ''test''" "source ex_config = None"
  "beam_size ex_config = 4" "disable_filters ex_config = False"
  by (simp_all add: ex_config_def)

theorem split_resolution_witness:
  "splits (projr (init ex_env (ex_config\<lparr>splits := Str ''a,b,c''\<rparr>))) = Lst [''a'', ''b'', ''c'']
   \<and> splits (projr (init ex_env (ex_config\<lparr>splits := NoneS, source := Some ''src:in.txt''\<rparr>)))
       = Lst [''new'']
   \<and> Option.bind
        (data (hd (instances
           (projr (init ex_env (ex_config\<lparr>splits := NoneS, source := Some ''src:in.txt''\<rparr>)))))
           ''new_set'')
        (\<lambda>input_dict. input_dict ''src'')
       = Some (Path ''in.txt'')"
proof -
  let ?k1 = "ex_config\<lparr>splits := Str ''a,b,c''\<rparr>"
  let ?k2 = "ex_config\<lparr>splits := NoneS, source := Some ''src:in.txt''\<rparr>"
  have l1: "load_instances ex_env (models ?k1) = Inr [ex_instance]"
    by (rule ex_load_one) (simp add: ex_config_sel)
  have l2: "load_instances ex_env (models ?k2) = Inr [ex_instance]"
    by (rule ex_load_one) (simp add: ex_config_sel)
  have sp: "py_split CHR '','' ''a,b,c'' = [''a'', ''b'', ''c'']"
    by (simp add: py_split_def)
  have sp2: "py_split CHR '','' ''src:in.txt'' = [''src:in.txt'']"
    by (simp add: py_split_def)
  from split_resolution [OF l1 ex_sanity_one, of "''a,b,c''" "''src:in.txt''"]
  obtain tr1 where "init ex_env ?k1 = Inr tr1" and "splits tr1 = Lst (py_split CHR '','' ''a,b,c'')"
    by auto
  then have a: "splits (projr (init ex_env ?k1)) = Lst [''a'', ''b'', ''c'']"
    by (simp add: sp)
  from split_resolution [OF l2 ex_sanity_one, of "''a,b,c''" "''src:in.txt''"]
  obtain tr2 where i2: "init ex_env ?k2 = Inr tr2" and s2: "splits tr2 = Lst [''new'']"
    and d2: "instances tr2
      = [ex_instance\<lparr>data := (data ex_instance)(''new_set'' \<mapsto> spec_input_dict ''src:in.txt'')\<rparr>]"
    by (auto simp: sp2)
  have "spec_input_dict ''src:in.txt'' ''src'' = Some (Path ''in.txt'')"
    by (simp add: spec_input_dict_def sp2 source_key_def source_file_def)
  with i2 s2 d2 a show ?thesis
    by simp
qed

theorem explicit_splits_take_precedence_witness:
  "splits (projr (init ex_env (ex_config\<lparr>splits := Str ''a,b'', source := Some ''src:in.txt''\<rparr>)))
     = Lst [''a'', ''b'']
   \<and> instances (projr (init ex_env (ex_config\<lparr>splits := Str ''a,b'', source := Some ''src:in.txt''\<rparr>)))
     = [ex_instance]"
proof -
  let ?k = "ex_config\<lparr>splits := Str ''a,b'', source := Some ''src:in.txt''\<rparr>"
  have l: "load_instances ex_env (models ?k) = Inr [ex_instance]"
    by (rule ex_load_one) (simp add: ex_config_sel)
  have sp: "py_split CHR '','' ''a,b'' = [''a'', ''b'']"
    by (simp add: py_split_def)
  from explicit_splits_take_precedence [OF l ex_sanity_one, of "''a,b''" None]
  obtain tr where "init ex_env ?k = Inr tr" and "splits tr = Lst (py_split CHR '','' ''a,b'')"
    and "instances tr = [ex_instance]"
    by auto
  then show ?thesis
    by (simp add: sp)
qed

subsection \<open>The output filter\<close>

lemma FilterChain_map:
  "foldl (\<lambda>hs f. map f hs) hyps fs = map (\<lambda>h. foldl (\<lambda>x f. f x) h fs) hyps"
  by (induction fs arbitrary: hyps) simp_all

lemma FilterChain_pointwise:
  "FilterChain env filters hyps = map (\<lambda>h. foldl (\<lambda>x f. f x) h (chain_of env filters)) hyps"
  by (simp add: FilterChain_def FilterChain_map)

lemma resolve_splits_filter:
  "resolve_splits tr = Inr tr' \<Longrightarrow>
     filter_f tr' = filter_f tr \<and> map eval_filters (instances tr') = map eval_filters (instances tr)"
  by (auto simp: resolve_splits_def split: if_splits splits_val.splits sum.splits list.splits)

lemma init_Inr:
  assumes "init env kwargs = Inr tr"
  shows "\<exists>insts. load_instances env (models kwargs) = Inr insts \<and> insts \<noteq> []
           \<and> sanity_check insts = Inr ()
           \<and> resolve_splits (built env kwargs insts) = Inr tr"
  using assms
  by (auto simp: init_def built_def split: sum.splits list.splits)

lemma translate_Inr:
  assumes "translate env tr insts split w = (Inr out, tr', w')"
  shows "\<exists>inst0 rest inst ds loader hyps.
           instances tr = inst0 # rest \<and> load_data env inst0 split = Inr inst
           \<and> datasets inst split = Some ds
           \<and> get_iterator env ds (batch_size tr) True = Inr loader
           \<and> beam_search env inst loader (trg_vocab inst) (beam_size tr) (max_len tr)
                (avoid_double tr) (avoid_unk tr) = Inr hyps
           \<and> out = filter_f tr hyps \<and> tr' = tr\<lparr>instances := inst # rest\<rparr>"
  using assms
  by (auto simp: translate_def Let_def split: list.splits sum.splits option.splits if_splits)

text \<open>
  C6. The filter of a constructed translator returns as many hypotheses as it is given,
  the \<open>i\<close>-th of them computed from the \<open>i\<close>-th input alone (it is a \<open>map\<close>, also on
  the empty list); it is the identity when filtering is disabled or when the training
  options declare no filter. What \<open>translate\<close> returns is the filter applied to the
  output of the search.
\<close>

theorem filter_stage:
  assumes "init env kwargs = Inr tr"
  shows "length (filter_f tr hyps) = length hyps
    \<and> (\<exists>f. \<forall>hs. filter_f tr hs = map f hs)
    \<and> (disable_filters kwargs \<or> eval_filters (hd (instances tr)) = [] \<longrightarrow>
         filter_f tr = (\<lambda>s. s))
    \<and> (translate env tr insts split w = (Inr out, tr', w') \<longrightarrow>
         (\<exists>raw. out = filter_f tr raw \<and> length out = length raw))"
proof -
  from init_Inr [OF assms] obtain loaded where ne: "loaded \<noteq> []"
    and r: "resolve_splits (built env kwargs loaded) = Inr tr"
    by blast
  from resolve_splits_filter [OF r]
  have f: "filter_f tr = filter_f (built env kwargs loaded)"
    and e: "map eval_filters (instances tr) = map eval_filters loaded"
    by (simp_all add: built_sel)
  from e ne have ne': "instances tr \<noteq> []" by auto
  from e ne ne' have hd_eq: "eval_filters (hd (instances tr)) = eval_filters (hd loaded)"
    by (metis hd_map)
  define g where "g =
    (if disable_filters kwargs \<or> eval_filters (hd loaded) = [] then (\<lambda>h. h)
     else (\<lambda>h. foldl (\<lambda>x f. f x) h (chain_of env (eval_filters (hd loaded)))))"
  have pw_g: "filter_f tr hs = map g hs" for hs
    by (simp add: f built_sel g_def FilterChain_pointwise)
  have pw: "\<exists>g. \<forall>hs. filter_f tr hs = map g hs"
  proof (intro exI allI)
    fix hs
    show "filter_f tr hs = map g hs"
      by (rule pw_g)
  qed
  have len: "length (filter_f tr hs) = length hs" for hs
    by (simp add: pw_g)
  have idt: "disable_filters kwargs \<or> eval_filters (hd (instances tr)) = [] \<longrightarrow>
         filter_f tr = (\<lambda>s. s)"
    by (simp add: f built_sel hd_eq)
  have tra: "translate env tr insts split w = (Inr out, tr', w') \<longrightarrow>
         (\<exists>raw. out = filter_f tr raw \<and> length out = length raw)"
    using translate_Inr [of env tr insts split w out tr' w'] len by blast
  from len pw idt tra show ?thesis
    by blast
qed


lemma ex_init_bpe:
  "init ex_env (ex_config\<lparr>models := [''bpe.ckpt''], disable_filters := d\<rparr>)
     = Inr ((built ex_env (ex_config\<lparr>models := [''bpe.ckpt''], disable_filters := d\<rparr>)
               [ex_instance\<lparr>eval_filters := ''de-bpe''\<rparr>])\<lparr>splits := Lst [''test'']\<rparr>)"
proof -
  let ?k = "ex_config\<lparr>models := [''bpe.ckpt''], disable_filters := d\<rparr>"
  have l: "load_instances ex_env (models ?k) = Inr [ex_instance\<lparr>eval_filters := ''de-bpe''\<rparr>]"
    by (simp add: ex_env_sel)
  have c: "sanity_check [ex_instance\<lparr>eval_filters := ''de-bpe''\<rparr>] = Inr ()"
    by (simp add: sanity_check_def)
  have sp: "py_split CHR '','' ''test'' = [''test'']"
    by (simp add: py_split_def)
  show ?thesis
    by (simp add: init_loaded [OF l c] resolve_explicit [where s = "''test''"] built_sel
        ex_config_sel sp)
qed

theorem filter_stage_witness:
  "length (filter_f (projr (init ex_env (ex_config\<lparr>models := [''bpe.ckpt''],
       disable_filters := False\<rparr>))) [''a@@b'', ''c'']) = 2
   \<and> filter_f (projr (init ex_env (ex_config\<lparr>models := [''bpe.ckpt''],
       disable_filters := False\<rparr>))) [''a@@b'', ''c''] = [''ab'', ''c'']
   \<and> filter_f (projr (init ex_env (ex_config\<lparr>models := [''bpe.ckpt''],
       disable_filters := True\<rparr>))) [''a@@b'', ''c''] = [''a@@b'', ''c'']"
proof -
  let ?k = "\<lambda>d. ex_config\<lparr>models := [''bpe.ckpt''], disable_filters := d\<rparr>"
  let ?tr = "\<lambda>d. (built ex_env (?k d) [ex_instance\<lparr>eval_filters := ''de-bpe''\<rparr>])
      \<lparr>splits := Lst [''test'']\<rparr>"
  note on = filter_stage [OF ex_init_bpe [of False], where hyps = "[''a@@b'', ''c'']"
      and insts = "[]" and split = "''test''" and w = ex_world and out = "[]"
      and tr' = "?tr False" and w' = ex_world]
  note off = filter_stage [OF ex_init_bpe [of True], where hyps = "[''a@@b'', ''c'']"
      and insts = "[]" and split = "''test''" and w = ex_world and out = "[]"
      and tr' = "?tr True" and w' = ex_world]
  from on have a: "length (filter_f (?tr False) [''a@@b'', ''c'']) = 2"
    by simp
  have b: "filter_f (?tr False) [''a@@b'', ''c''] = [''ab'', ''c'']"
    by (simp add: built_sel FilterChain_def ex_env_sel)
  from off have "filter_f (?tr True) = (\<lambda>s. s)"
    by simp
  then have c: "filter_f (?tr True) [''a@@b'', ''c''] = [''a@@b'', ''c'']"
    by simp
  from a b c show ?thesis
    by (simp add: ex_init_bpe)
qed


subsection \<open>Decoding\<close>

lemma translate_rest:
  "instances tr = i0 # rest \<Longrightarrow>
     tl (instances (fst (snd (translate env tr insts split w)))) = rest"
  by (simp add: translate_def Let_def split: sum.splits option.splits)

text \<open>
  C5. Translating a split reads the first instance only: with the same first instance
  and the same configuration, another tail of the ensemble and another \<open>instances\<close>
  argument give the same hypotheses (or the same error) and the same world, and the
  tail is handed back unchanged.
\<close>

theorem decoding_uses_primary_only:
  assumes "instances tr = i0 # rest"
  shows "fst (translate env (tr\<lparr>instances := i0 # rest'\<rparr>) insts' split w)
           = fst (translate env tr insts split w)
       \<and> snd (snd (translate env (tr\<lparr>instances := i0 # rest'\<rparr>) insts' split w))
           = snd (snd (translate env tr insts split w))
       \<and> tl (instances (fst (snd (translate env tr insts split w)))) = rest"
  using assms
  by (simp add: translate_rest) (simp add: translate_def Let_def split: sum.splits option.splits)

lemma ex_translate_test:
  "instances tr = [ex_instance] \<Longrightarrow> filter_f tr = (\<lambda>s. s) \<Longrightarrow> split \<noteq> ''missing'' \<Longrightarrow>
   translate ex_env tr insts split w
     = (Inr [''hello world'', ''bye''],
        tr\<lparr>instances := [ex_instance\<lparr>datasets := (datasets ex_instance)(split \<mapsto> ())\<rparr>]\<rparr>,
        w\<lparr>ticks := Suc (Suc (ticks w)), reported := reported w @ [2]\<rparr>)"
  by (simp add: translate_def Let_def ex_env_sel ex_floats)

theorem decoding_uses_primary_only_witness:
  "instances ex_translator = [ex_instance]
   \<and> fst (translate ex_env
        (ex_translator\<lparr>instances := [ex_instance, ex_instance\<lparr>sl := ''fr''\<rparr>]\<rparr>)
        [] ''test'' ex_world)
     = Inr [''hello world'', ''bye'']"
proof -
  have i: "instances ex_translator = [ex_instance]"
    by (simp add: ex_translator_sel)
  from decoding_uses_primary_only [OF i, of ex_env "[ex_instance\<lparr>sl := ''fr''\<rparr>]" "[]"
      "''test''" ex_world "[ex_instance]"]
  have "fst (translate ex_env
        (ex_translator\<lparr>instances := [ex_instance, ex_instance\<lparr>sl := ''fr''\<rparr>]\<rparr>)
        [] ''test'' ex_world)
      = fst (translate ex_env ex_translator [ex_instance] ''test'' ex_world)"
    by simp
  also have "\<dots> = Inr [''hello world'', ''bye'']"
    by (simp add: ex_translate_test ex_translator_sel)
  finally show ?thesis
    using i by simp
qed

subsection \<open>The run\<close>

lemma translate_files: "files (snd (snd (translate env tr insts split w))) = files w"
  by (simp add: translate_def Let_def split: list.splits sum.splits option.splits)

lemma translate_load_fails:
  "instances tr = i0 # rest \<Longrightarrow> load_data env i0 split = Inl e \<Longrightarrow>
     fst (translate env tr insts split w) = Inl e"
  by (simp add: translate_def)

lemma translate_search_fails:
  "instances tr = i0 # rest \<Longrightarrow> load_data env i0 split = Inr inst \<Longrightarrow>
   datasets inst split = Some ds \<Longrightarrow> get_iterator env ds (batch_size tr) True = Inr loader \<Longrightarrow>
   beam_search env inst loader (trg_vocab inst) (beam_size tr) (max_len tr)
     (avoid_double tr) (avoid_unk tr) = Inl e \<Longrightarrow>
     fst (translate env tr insts split w) = Inl e"
  by (simp add: translate_def Let_def)

lemma call_loop_append:
  "call_loop env tr (pre @ post) w =
     (case call_loop env tr pre w of
        (Inl e, tr1, w1) \<Rightarrow> (Inl e, tr1, w1)
      | (Inr u, tr1, w1) \<Rightarrow> call_loop env tr1 post w1)"
  by (induction pre arbitrary: tr w) (simp_all split: prod.splits sum.splits)

lemma call_loop_translate_fails:
  assumes "fst (translate env tr (instances tr) s w) = Inl e"
  shows "fst (call_loop env tr (s # post) w) = Inl e
       \<and> snd (call_loop env tr (s # post) w) = snd (translate env tr (instances tr) s w)
       \<and> files (snd (snd (call_loop env tr (s # post) w))) = files w"
proof -
  obtain r tr1 w1 where t: "translate env tr (instances tr) s w = (r, tr1, w1)"
    by (rule prod_cases3)
  with assms have r: "r = Inl e" by simp
  from t have "files w1 = files w"
    using translate_files [of env tr "instances tr" s w] by simp
  with t r show ?thesis by simp
qed

lemma call_loop_translate_ok:
  assumes "translate env tr (instances tr) s w = (Inr hyps, tr1, w1)"
  shows "call_loop env tr (s # post) w =
     (case dump env tr1 hyps s w1 of
        (Inl e, w2) \<Rightarrow> (Inl e, tr1, w2)
      | (Inr u, w2) \<Rightarrow> call_loop env tr1 post w2)"
  using assms by simp

text \<open>
  C7. The splits are processed in order. When the splits before \<open>s\<close> went through and
  translating \<open>s\<close> fails (loading the data set, the search, or anything else in
  \<open>translate\<close>), the run ends with that error, and the translator and the world it
  returns are the ones the failed \<open>translate\<close> left: nothing happens after the failure,
  so no later split is translated or written, and the files are those left by the
  earlier splits, with nothing written for \<open>s\<close>. When translating \<open>s\<close> succeeds, its
  hypotheses are written next, and the later splits follow only if that succeeds.
\<close>

theorem run_stops_at_first_failure:
  assumes "splits tr = Lst (pre @ s # post)"
    and "call_loop env tr pre w = (Inr (), tr1, w1)"
  shows "(fst (translate env tr1 (instances tr1) s w1) = Inl e \<longrightarrow>
            fst (call env tr w) = Inl e
            \<and> snd (call env tr w) = snd (translate env tr1 (instances tr1) s w1)
            \<and> files (snd (snd (call env tr w))) = files w1)
    \<and> (translate env tr1 (instances tr1) s w1 = (Inr hyps, tr2, w2) \<longrightarrow>
            call env tr w =
              (case dump env tr2 hyps s w2 of
                 (Inl e, w3) \<Rightarrow> (Inl e, tr2, w3)
               | (Inr u, w3) \<Rightarrow> call_loop env tr2 post w3))"
proof -
  from assms have c: "call env tr w = call_loop env tr1 (s # post) w1"
    by (simp add: call_def call_loop_append)
  show ?thesis
    unfolding c
    using call_loop_translate_fails [of env tr1 s w1 e post]
      call_loop_translate_ok [of env tr1 s w1 hyps tr2 w2 post]
    by blast
qed


lemma ex_dump_output: "dump_output (ex_translator\<lparr>splits := x, instances := y\<rparr>) ''test''
    = ''out/run.test.beam4''"
  by (simp add: dump_output_eq ex_translator_sel str_int_4)

lemma ex_call_loop_test:
  "call_loop ex_env (ex_translator\<lparr>splits := x\<rparr>) [''test''] ex_world
     = (Inr (),
        ex_translator\<lparr>splits := x,
          instances := [ex_instance\<lparr>datasets := (datasets ex_instance)(''test'' \<mapsto> ())\<rparr>]\<rparr>,
        \<lparr>files = [''out/run.test.beam4'' \<mapsto>
            \<lparr>encoding = ''UTF-8'', content = ''hello world\<newline>bye\<newline>''\<rparr>],
         ticks = 2, reported = [2]\<rparr>)"
proof -
  have t: "translate ex_env (ex_translator\<lparr>splits := x\<rparr>) insts ''test'' w
     = (Inr [''hello world'', ''bye''],
        ex_translator\<lparr>splits := x,
          instances := [ex_instance\<lparr>datasets := (datasets ex_instance)(''test'' \<mapsto> ())\<rparr>]\<rparr>,
        w\<lparr>ticks := Suc (Suc (ticks w)), reported := reported w @ [2]\<rparr>)" for insts w
    by (rule ex_translate_test [THEN trans]) (simp_all add: ex_translator_sel)
  show ?thesis
    by (simp add: t dump_def ex_dump_output ex_env_sel ex_world_def)
qed

theorem run_stops_at_first_failure_witness:
  "fst (call ex_env (ex_translator\<lparr>splits := Lst [''test'', ''missing'', ''valid'']\<rparr>) ex_world)
     = Inl (External ''no such data set'')
   \<and> files (snd (snd (call ex_env
        (ex_translator\<lparr>splits := Lst [''test'', ''missing'', ''valid'']\<rparr>) ex_world)))
        ''out/run.test.beam4'' \<noteq> None
   \<and> files (snd (snd (call ex_env
        (ex_translator\<lparr>splits := Lst [''test'', ''missing'', ''valid'']\<rparr>) ex_world)))
        ''out/run.missing.beam4'' = None
   \<and> files (snd (snd (call ex_env
        (ex_translator\<lparr>splits := Lst [''test'', ''missing'', ''valid'']\<rparr>) ex_world)))
        ''out/run.valid.beam4'' = None
   \<and> ticks (snd (snd (call ex_env
        (ex_translator\<lparr>splits := Lst [''test'', ''missing'', ''valid'']\<rparr>) ex_world))) = 2
   \<and> reported (snd (snd (call ex_env
        (ex_translator\<lparr>splits := Lst [''test'', ''missing'', ''valid'']\<rparr>) ex_world))) = [2]"
proof -
  let ?tr = "ex_translator\<lparr>splits := Lst [''test'', ''missing'', ''valid'']\<rparr>"
  let ?tr1 = "ex_translator\<lparr>splits := Lst [''test'', ''missing'', ''valid''],
          instances := [ex_instance\<lparr>datasets := (datasets ex_instance)(''test'' \<mapsto> ())\<rparr>]\<rparr>"
  let ?w1 = "\<lparr>files = [''out/run.test.beam4'' \<mapsto>
            \<lparr>encoding = ''UTF-8'', content = ''hello world\<newline>bye\<newline>''\<rparr>],
         ticks = 2, reported = [2]\<rparr>"
  have s: "splits ?tr = Lst ([''test''] @ ''missing'' # [''valid''])"
    by simp
  have f: "fst (translate ex_env ?tr1 (instances ?tr1) ''missing'' ?w1)
      = Inl (External ''no such data set'')"
    by (rule translate_load_fails [where rest = "[]"]) (simp_all add: ex_env_sel)
  have g: "snd (snd (translate ex_env ?tr1 (instances ?tr1) ''missing'' ?w1)) = ?w1"
    by (simp add: translate_def ex_env_sel)
  from run_stops_at_first_failure [OF s ex_call_loop_test,
      of "External ''no such data set''" "[]" ?tr1 ?w1] f
  have "fst (call ex_env ?tr ex_world) = Inl (External ''no such data set'')"
    and "snd (call ex_env ?tr ex_world)
      = snd (translate ex_env ?tr1 (instances ?tr1) ''missing'' ?w1)"
    by blast+
  with g have "fst (call ex_env ?tr ex_world) = Inl (External ''no such data set'')"
    and "snd (snd (call ex_env ?tr ex_world)) = ?w1"
    by simp_all
  then show ?thesis
    by simp
qed

subsection \<open>The output file\<close>

lemma write_lines_ok:
  "\<forall>h\<in>set hyps. enc (h @ ''\<newline>'') \<Longrightarrow>
     write_lines enc hyps buf = (Inr (), buf @ concat (map (\<lambda>h. h @ ''\<newline>'') hyps))"
  by (induction hyps arbitrary: buf) simp_all

lemma py_split_acc_piece:
  "c \<notin> set h \<Longrightarrow> py_split_acc c acc (h @ c # rest) = (rev acc @ h) # py_split_acc c [] rest"
  by (induction h arbitrary: acc) auto

lemma py_split_lines:
  "\<forall>h\<in>set hyps. c \<notin> set h \<Longrightarrow>
     py_split_acc c [] (concat (map (\<lambda>h. h @ [c]) hyps)) = hyps @ [[]]"
proof (induction hyps)
  case Nil
  show ?case by simp
next
  case (Cons h hyps)
  then have "c \<notin> set h" and IH: "py_split_acc c [] (concat (map (\<lambda>h. h @ [c]) hyps)) = hyps @ [[]]"
    by simp_all
  then show ?case
    using py_split_acc_piece [of c h "[]" "concat (map (\<lambda>h. h @ [c]) hyps)"]
    by simp
qed

lemma file_lines_written:
  "\<forall>h\<in>set hyps. CHR ''\<newline>'' \<notin> set h \<Longrightarrow>
     file_lines (concat (map (\<lambda>h. h @ ''\<newline>'') hyps)) = hyps"
  by (simp add: file_lines_def py_split_def py_split_lines)

text \<open>
  C8, amended. When the output file can be opened and every line can be encoded, \<open>dump\<close>
  succeeds and changes the file system at the derived path only: the file there, whatever
  was there before, now holds each hypothesis followed by a newline, in input order, in
  the preferred encoding of the platform (the source names no encoding). When no
  hypothesis contains a newline character, the lines of the file are the hypotheses, so
  there are as many lines as hypotheses.
\<close>

theorem dump_writes_lines:
  assumes "can_open env (dump_output tr split)"
    and "\<forall>h\<in>set hyps. can_encode env (h @ ''\<newline>'')"
  shows "dump env tr hyps split w =
           (Inr (), w\<lparr>files := (files w)(dump_output tr split \<mapsto>
              \<lparr>encoding = preferred_encoding env,
               content = concat (map (\<lambda>h. h @ ''\<newline>'') hyps)\<rparr>)\<rparr>)
    \<and> ((\<forall>h\<in>set hyps. CHR ''\<newline>'' \<notin> set h) \<longrightarrow>
          file_lines (concat (map (\<lambda>h. h @ ''\<newline>'') hyps)) = hyps
          \<and> length (file_lines (concat (map (\<lambda>h. h @ ''\<newline>'') hyps))) = length hyps)"
  using assms
  by (simp add: dump_def write_lines_ok file_lines_written)

theorem dump_writes_lines_witness:
  "fst (dump ex_env ex_translator [''hello world'', ''bye''] ''test'' ex_world) = Inr ()
   \<and> map_option content
        (files (snd (dump ex_env ex_translator [''hello world'', ''bye''] ''test'' ex_world))
           ''out/run.test.beam4'')
       = Some ''hello world\<newline>bye\<newline>''
   \<and> file_lines ''hello world\<newline>bye\<newline>'' = [''hello world'', ''bye'']"
proof -
  have p: "dump_output ex_translator ''test'' = ''out/run.test.beam4''"
    by (simp add: dump_output_eq ex_translator_sel str_int_4)
  have o: "can_open ex_env (dump_output ex_translator ''test'')"
    by (simp add: ex_env_sel)
  have e: "\<forall>h\<in>set [''hello world'', ''bye'']. can_encode ex_env (h @ ''\<newline>'')"
    by (simp add: ex_env_sel)
  from dump_writes_lines [OF o e, of ex_world] show ?thesis
    by (simp add: p)
qed

text \<open>
  C8 as stated fails: a hypothesis that contains a newline character takes two lines of
  the file, and on a platform whose preferred encoding is not UTF-8 the file is not
  written in UTF-8.
\<close>

theorem dump_lines_counterexample:
  "file_lines (content (the (files (snd (dump (ex_env\<lparr>preferred_encoding := ''cp1252''\<rparr>)
       ex_translator [''a\<newline>b''] ''test'' ex_world)) ''out/run.test.beam4'')))
     \<noteq> [''a\<newline>b'']
   \<and> length (file_lines (content (the (files (snd (dump
       (ex_env\<lparr>preferred_encoding := ''cp1252''\<rparr>)
       ex_translator [''a\<newline>b''] ''test'' ex_world)) ''out/run.test.beam4''))))
     \<noteq> length [''a\<newline>b'']
   \<and> encoding (the (files (snd (dump (ex_env\<lparr>preferred_encoding := ''cp1252''\<rparr>)
       ex_translator [''a\<newline>b''] ''test'' ex_world)) ''out/run.test.beam4''))
     \<noteq> ''UTF-8''"
  by (simp add: dump_def dump_output_eq ex_translator_sel str_int_4 ex_env_sel
      file_lines_def py_split_def)

subsection \<open>The reported throughput\<close>

lemma float_sub_self: "float_sub x x = 0"
  by (simp add: float_sub_def round_double_def)

text \<open>
  The division of line 119 is not guarded: when the two readings of the clock are
  equal, \<open>translate\<close> raises after the search has returned, and the hypotheses are lost.
\<close>

lemma translate_zero_elapsed:
  assumes "instances tr = i0 # rest" and "load_data env i0 split = Inr inst"
    and "datasets inst split = Some ds"
    and "get_iterator env ds (batch_size tr) True = Inr loader"
    and "beam_search env inst loader (trg_vocab inst) (beam_size tr) (max_len tr)
           (avoid_double tr) (avoid_unk tr) = Inr hyps"
    and "time_time env (Suc (ticks w)) = time_time env (ticks w)"
  shows "fst (translate env tr insts split w) = Inl ZeroDivisionError"
  using assms by (simp add: translate_def Let_def float_sub_self)

lemma translate_searched:
  assumes "instances tr = i0 # rest" and "load_data env i0 split = Inr inst"
    and "datasets inst split = Some ds"
    and "get_iterator env ds (batch_size tr) True = Inr loader"
    and "beam_search env inst loader (trg_vocab inst) (beam_size tr) (max_len tr)
           (avoid_double tr) (avoid_unk tr) = Inr hyps"
  shows "translate env tr insts split w =
     (let up_time = float_sub (time_time env (Suc (ticks w))) (time_time env (ticks w));
          rate = float_div (float_of_int (int (length hyps))) up_time;
          tr1 = tr\<lparr>instances := inst # rest\<rparr>;
          w2 = w\<lparr>ticks := Suc (Suc (ticks w))\<rparr>
      in if up_time = 0 then (Inl ZeroDivisionError, tr1, w2)
         else if 2 powi 1024 \<le> \<bar>rate\<bar> then (Inl OverflowError, tr1, w2)
         else (Inr (filter_f tr hyps), tr1, w2\<lparr>reported := reported w @ [\<lfloor>rate\<rfloor>]\<rparr>))"
  using assms by (simp add: translate_def Let_def)

text \<open>
  C9, amended. Once the search has returned its hypotheses, the value reported is the
  floor of the floating-point quotient of their number by the elapsed time: the elapsed
  time is the float difference of the two clock readings, and the quotient is the exact
  quotient rounded to the nearest double, so its floor need not be the floor of the
  exact quotient. This holds when the elapsed time is not zero and the quotient is a
  finite float. The division is not guarded: when the elapsed time is zero it raises
  \<^verbatim>\<open>ZeroDivisionError\<close>, nothing is reported and \<open>translate\<close> returns no hypotheses.
\<close>

theorem throughput_reported:
  assumes "instances tr = i0 # rest" and "load_data env i0 split = Inr inst"
    and "datasets inst split = Some ds"
    and "get_iterator env ds (batch_size tr) True = Inr loader"
    and "beam_search env inst loader (trg_vocab inst) (beam_size tr) (max_len tr)
           (avoid_double tr) (avoid_unk tr) = Inr hyps"
    and "up_time = float_sub (time_time env (Suc (ticks w))) (time_time env (ticks w))"
    and "rate = float_div (float_of_int (int (length hyps))) up_time"
  shows "(up_time \<noteq> 0 \<and> \<bar>rate\<bar> < 2 powi 1024 \<longrightarrow>
            fst (translate env tr insts split w) = Inr (filter_f tr hyps)
            \<and> reported (snd (snd (translate env tr insts split w)))
                = reported w @ [\<lfloor>rate\<rfloor>])
    \<and> (up_time = 0 \<longrightarrow>
            fst (translate env tr insts split w) = Inl ZeroDivisionError
            \<and> reported (snd (snd (translate env tr insts split w))) = reported w)"
  using assms(6,7)
  by (simp add: translate_searched [OF assms(1-5)] Let_def)

lemma ex_searched:
  "instances ex_translator = ex_instance # []"
  "load_data ex_env ex_instance ''test''
     = Inr (ex_instance\<lparr>datasets := (datasets ex_instance)(''test'' \<mapsto> ())\<rparr>)"
  "datasets (ex_instance\<lparr>datasets := (datasets ex_instance)(''test'' \<mapsto> ())\<rparr>) ''test''
     = Some ()"
  "get_iterator ex_env () (batch_size ex_translator) True = Inr ()"
  "beam_search ex_env (ex_instance\<lparr>datasets := (datasets ex_instance)(''test'' \<mapsto> ())\<rparr>) ()
     (trg_vocab (ex_instance\<lparr>datasets := (datasets ex_instance)(''test'' \<mapsto> ())\<rparr>))
     (beam_size ex_translator) (max_len ex_translator) (avoid_double ex_translator)
     (avoid_unk ex_translator) = Inr [''hello world'', ''bye'']"
  by (simp_all add: ex_translator_sel ex_env_sel)

theorem throughput_reported_witness:
  "fst (translate ex_env ex_translator [] ''test'' ex_world) = Inr [''hello world'', ''bye'']
   \<and> reported (snd (snd (translate ex_env ex_translator [] ''test'' ex_world))) = [2]
   \<and> fst (translate ex_env_frozen ex_translator [] ''test'' ex_world) = Inl ZeroDivisionError
   \<and> reported (snd (snd (translate ex_env_frozen ex_translator [] ''test'' ex_world))) = []"
proof -
  have u: "(1::real) = float_sub (time_time ex_env (Suc (ticks ex_world)))
      (time_time ex_env (ticks ex_world))"
    by (simp add: ex_env_sel ex_world_def ex_floats(1) [of 0, simplified])
  have r: "(2::real) = float_div (float_of_int (int (length [''hello world'', ''bye'']))) 1"
    by (simp add: ex_floats)
  have b: "\<bar>2::real\<bar> < 2 powi 1024"
    by simp
  from throughput_reported [OF ex_searched u r, of "[]"] b
  have a: "fst (translate ex_env ex_translator [] ''test'' ex_world)
        = Inr [''hello world'', ''bye'']
      \<and> reported (snd (snd (translate ex_env ex_translator [] ''test'' ex_world))) = [2]"
    by (simp add: ex_translator_sel ex_world_def)
  have fs: "load_data ex_env_frozen = load_data ex_env"
    "get_iterator ex_env_frozen = get_iterator ex_env"
    "beam_search ex_env_frozen = beam_search ex_env"
    "time_time ex_env_frozen = (\<lambda>k. 0)"
    by (simp_all add: ex_env_frozen_def)
  have u0: "(0::real) = float_sub (time_time ex_env_frozen (Suc (ticks ex_world)))
      (time_time ex_env_frozen (ticks ex_world))"
    by (simp add: fs float_sub_self)
  from throughput_reported [of ex_translator ex_instance "[]" ex_env_frozen "''test''"
      "ex_instance\<lparr>datasets := (datasets ex_instance)(''test'' \<mapsto> ())\<rparr>" "()" "()"
      "[''hello world'', ''bye'']" 0 ex_world
      "float_div (float_of_int (int (length [''hello world'', ''bye'']))) 0" "[]"]
    ex_searched u0
  have z: "fst (translate ex_env_frozen ex_translator [] ''test'' ex_world)
        = Inl ZeroDivisionError
      \<and> reported (snd (snd (translate ex_env_frozen ex_translator [] ''test'' ex_world))) = []"
    by (simp add: fs ex_world_def)
  from a z show ?thesis
    by blast
qed

text \<open>
  C9 as stated fails. With a clock that reads \<open>0.0\<close> and then \<open>0.1\<close> (the double nearest
  to one tenth) and one hypothesis, the value reported is 10, while the floor of the
  exact quotient of 1 by that elapsed time is 9. And with a clock that does not advance
  there is no guard: \<open>translate\<close> raises \<^verbatim>\<open>ZeroDivisionError\<close>.
\<close>

theorem throughput_counterexample:
  "reported (snd (snd (translate ex_env_mocked ex_translator [] ''test'' ex_world))) = [10]
   \<and> \<lfloor>real (length [''hi'']) / (3602879701896397 / 36028797018963968 - 0)\<rfloor> = (9::int)
   \<and> fst (translate ex_env_frozen ex_translator [] ''test'' ex_world) = Inl ZeroDivisionError"
proof -
  have ms: "load_data ex_env_mocked = load_data ex_env"
    "get_iterator ex_env_mocked = get_iterator ex_env"
    "beam_search ex_env_mocked = (\<lambda>inst loader vocab bs ml ad au. Inr [''hi''])"
    "time_time ex_env_mocked = (\<lambda>k. if k = 0 then 0 else 3602879701896397 / 36028797018963968)"
    by (simp_all add: ex_env_mocked_def)
  have up: "float_sub (3602879701896397 / 36028797018963968) 0
      = 3602879701896397 / 36028797018963968"
    unfolding float_sub_def by code_simp
  have rate: "float_div (float_of_int 1) (3602879701896397 / 36028797018963968) = 10"
    unfolding float_div_def float_of_int_def by code_simp
  have a: "reported (snd (snd (translate ex_env_mocked ex_translator [] ''test'' ex_world)))
      = [10]"
    by (simp add: translate_def Let_def ms ex_env_sel ex_translator_sel ex_world_def up rate)
  have b: "\<lfloor>real (length [''hi'']) / (3602879701896397 / 36028797018963968 - 0)\<rfloor> = (9::int)"
    by simp
  have fs: "load_data ex_env_frozen = load_data ex_env"
    "get_iterator ex_env_frozen = get_iterator ex_env"
    "beam_search ex_env_frozen = beam_search ex_env"
    "time_time ex_env_frozen = (\<lambda>k. 0)"
    by (simp_all add: ex_env_frozen_def)
  have c: "fst (translate ex_env_frozen ex_translator [] ''test'' ex_world)
      = Inl ZeroDivisionError"
    by (simp add: translate_def Let_def fs ex_env_sel ex_translator_sel float_sub_self)
  from a b c show ?thesis
    by blast
qed

end
